theory Spec2Isabelle
  imports Main "HOL-Library.Sublist"
begin

section \<open>Python strings\<close>

text \<open>
  A Python \<open>str\<close> is a sequence of Unicode code points, so a string is a list of
  natural numbers and its length counts code points. \<open>str ''...''\<close> writes an ASCII
  literal and \<open>ch\<close> a single ASCII character.
\<close>

type_synonym pystr = "nat list"

abbreviation ch :: "char \<Rightarrow> nat" where
  "ch \<equiv> of_char"

abbreviation str :: "string \<Rightarrow> pystr" where
  "str \<equiv> map ch"

text \<open>
  The characters that \<open>\s\<close> matches in a \<open>str\<close> pattern and that \<open>str.strip()\<close>
  removes: the code points whose \<open>isspace()\<close> is true (TAB to CR, FS to US and SPACE,
  NEL, NBSP, and the Unicode space separators).
\<close>

definition is_space :: "nat \<Rightarrow> bool" where
  "is_space c \<longleftrightarrow>
     (9 \<le> c \<and> c \<le> 13) \<or> (28 \<le> c \<and> c \<le> 32) \<or> c = 133 \<or> c = 160 \<or> c = 5760 \<or>
     (8192 \<le> c \<and> c \<le> 8202) \<or> c = 8232 \<or> c = 8233 \<or> c = 8239 \<or> c = 8287 \<or> c = 12288"

text \<open>\<open>s.strip()\<close>: the string without its leading and trailing whitespace.\<close>

definition strip :: "pystr \<Rightarrow> pystr" where
  "strip s = rev (dropWhile is_space (rev (dropWhile is_space s)))"


section \<open>The three regular expressions of \<open>extract_and_parse_json\<close>\<close>

text \<open>
  \<open>re.search(r'({[\s\S]*})', raw_output)\<close>. The pattern is an opening brace, any
  characters (greedy, newlines included) and a closing brace. The search takes the
  leftmost position where a match exists and there the longest one, so the match runs
  from the first \<open>{\<close> of the text to the last \<open>}\<close> after it; when no \<open>}\<close> follows the
  first \<open>{\<close> none follows a later one either, and there is no match.
\<close>

definition search_json_pattern :: "pystr \<Rightarrow> pystr option" where
  "search_json_pattern raw_output =
     (let from_open = dropWhile (\<lambda>c. c \<noteq> ch CHR ''{'') raw_output;
          group1 = rev (dropWhile (\<lambda>c. c \<noteq> ch CHR ''}'') (rev from_open))
      in if group1 = [] then None else Some group1)"

text \<open>
  \<open>re.sub(r'```(?:json)?\s*|\s*```', '', json_str)\<close>. The scan goes left to right
  over non-overlapping matches. At a position the first alternative is tried first: three
  backticks, then \<open>json\<close> when it follows, then all the whitespace that follows. The
  second alternative matches a (possibly empty) run of whitespace followed by three
  backticks; since \<open>\s*\<close> is followed by a backtick it can only stop at the end of the
  whitespace run. A match is deleted and the scan resumes behind it; where neither
  alternative matches, the character is kept. No match is empty.
\<close>

function remove_code_fences :: "pystr \<Rightarrow> pystr" where
  "remove_code_fences [] = []"
| "remove_code_fences (c # cs) =
     (if prefix (str ''```'') (c # cs) then
        (let after_ticks = drop 3 (c # cs);
             after_tag = (if prefix (str ''json'') after_ticks then drop 4 after_ticks
                          else after_ticks)
         in remove_code_fences (dropWhile is_space after_tag))
      else if prefix (str ''```'') (dropWhile is_space (c # cs)) then
        remove_code_fences (drop 3 (dropWhile is_space (c # cs)))
      else c # remove_code_fences cs)"
  by pat_completeness auto
termination
proof (relation "measure length", goal_cases)
  case 1
  show ?case by simp
next
  case (2 c cs after_ticks after_tag)
  have "length (dropWhile is_space after_tag) \<le> length after_tag"
    by (rule length_dropWhile_le)
  also have "length after_tag \<le> length after_ticks"
    using 2 by (simp split: if_splits)
  also have "length after_ticks < length (c # cs)"
    using 2 by simp
  finally show ?case by simp
next
  case (3 c cs)
  have "length (dropWhile is_space (c # cs)) \<le> length (c # cs)"
    by (rule length_dropWhile_le)
  moreover have "dropWhile is_space (c # cs) \<noteq> []"
  proof
    assume "dropWhile is_space (c # cs) = []"
    with 3(2) show False by (simp del: dropWhile.simps)
  qed
  ultimately show ?case
    by (cases "dropWhile is_space (c # cs)") (simp_all del: dropWhile.simps)
next
  case (4 c cs)
  show ?case by simp
qed

text \<open>
  \<open>re.sub(r',(\s*[}\]])', r'\1', json_str)\<close>. A comma matches when the first
  character behind the whitespace that follows it is \<open>}\<close> or \<open>]\<close>; the match is replaced
  by its group, the whitespace and the closer, and the scan resumes behind the closer.
\<close>

function remove_trailing_commas :: "pystr \<Rightarrow> pystr" where
  "remove_trailing_commas [] = []"
| "remove_trailing_commas (c # cs) =
     (if c = ch CHR '','' then
        (case dropWhile is_space cs of
           [] \<Rightarrow> c # remove_trailing_commas cs
         | d # rest \<Rightarrow>
             if d = ch CHR ''}'' \<or> d = ch CHR '']'' then
               takeWhile is_space cs @ d # remove_trailing_commas rest
             else c # remove_trailing_commas cs)
      else c # remove_trailing_commas cs)"
  by pat_completeness auto
termination
proof (relation "measure length", goal_cases)
  case (3 c cs d rest)
  have "length (dropWhile is_space cs) \<le> length cs"
    by (rule length_dropWhile_le)
  with 3 show ?case by simp
qed simp_all


section \<open>JSON values, exceptions and the user interface\<close>

text \<open>
  What \<open>json.loads\<close> returns: \<open>None\<close>, a \<open>bool\<close>, an \<open>int\<close>, a \<open>float\<close>, a \<open>str\<close>,
  a \<open>list\<close> or a \<open>dict\<close> with string keys (in insertion order). Floating-point
  arithmetic is not modelled: a float is kept as the literal that denotes it.
\<close>

datatype json =
    JNull
  | JBool bool
  | JInt int
  | JFloat pystr
  | JString pystr
  | JArray "json list"
  | JObject "(pystr \<times> json) list"

text \<open>
  The exceptions that reach the two handlers, each with its \<open>str(e)\<close>:
  \<open>json.JSONDecodeError\<close> and any other \<open>Exception\<close>.
\<close>

datatype exn = JSONDecodeError pystr | OtherException pystr

text \<open>
  The Streamlit calls of the handlers, recorded in the order they are made:
  \<open>st.error(body)\<close> and \<open>st.text_area(label, value, height)\<close>.
\<close>

datatype ui_event = StError pystr | StTextArea pystr pystr nat


section \<open>\<open>extract_and_parse_json\<close>\<close>

text \<open>
  The parser \<open>json.loads\<close> belongs to the Python standard library; the function takes
  it as the parameter \<open>loads\<close>, which returns the parsed value or the exception raised.
  The Streamlit output is threaded through as a list of events. Python's \<open>None\<close> is
  \<open>JNull\<close>, which is also what \<open>json.loads\<close> returns for \<open>null\<close>.
\<close>

definition extract_and_parse_json ::
    "(pystr \<Rightarrow> exn + json) \<Rightarrow> pystr \<Rightarrow> ui_event list \<Rightarrow> json \<times> ui_event list" where
  "extract_and_parse_json loads raw_output ui =
     (let json_str = (case search_json_pattern raw_output of
                        Some group1 \<Rightarrow> group1
                      | None \<Rightarrow> raw_output);
          json_str = strip (remove_code_fences json_str);
          json_str = remove_trailing_commas json_str
      in case loads json_str of
           Inr plan \<Rightarrow> (plan, ui)
         | Inl (JSONDecodeError e) \<Rightarrow>
             (JNull, ui @ [StError (128308 # str '' JSON Parsing Error: '' @ e),
                           StTextArea (str ''Problematic JSON Output'') raw_output 200])
         | Inl (OtherException e) \<Rightarrow>
             (JNull, ui @ [StError (128308 # str '' Error processing output: '' @ e)]))"


section \<open>Strict JSON parsing\<close>

text \<open>
  Modelled from the spec: \<open>json.loads\<close>, the strict JSON parser of step 4, is the Python
  standard library's and not part of the repository's source. The definitions of this
  section follow its decoder for a \<open>str\<close> argument: whitespace is space, tab, newline
  and carriage return; \<open>NaN\<close>, \<open>Infinity\<close> and \<open>-Infinity\<close> are accepted; control
  characters inside strings are rejected; a repeated key keeps its first position and
  its last value. A scan either returns a value and the text behind it, or fails with a
  message at a position (given as the text from that position on).
\<close>

datatype 'a scan = Ok 'a pystr | Err pystr pystr | Exhausted

definition is_json_ws :: "nat \<Rightarrow> bool" where
  "is_json_ws c \<longleftrightarrow> c = 32 \<or> c = 9 \<or> c = 10 \<or> c = 13"

abbreviation skip_ws :: "pystr \<Rightarrow> pystr" where
  "skip_ws \<equiv> dropWhile is_json_ws"

definition is_digit :: "nat \<Rightarrow> bool" where
  "is_digit c \<longleftrightarrow> 48 \<le> c \<and> c \<le> 57"

definition int_of_digits :: "pystr \<Rightarrow> int" where
  "int_of_digits ds = foldl (\<lambda>a d. 10 * a + int (d - 48)) 0 ds"

text \<open>
  A number is \<open>(-?(0|[1-9][0-9]*))(\.[0-9]+)?([eE][-+]?[0-9]+)?\<close>, matched greedily:
  the integer part with its sign, then a fraction when a digit follows the point, then
  an exponent when a digit follows its sign. Each part is returned with the text behind
  it. Without fraction and exponent the number is an \<open>int\<close>, otherwise a \<open>float\<close>.
\<close>

definition match_integer :: "pystr \<Rightarrow> (pystr \<times> pystr) option" where
  "match_integer s =
     (let (sign, s1) = (case s of
                          [] \<Rightarrow> ([], s)
                        | c # cs \<Rightarrow> if c = ch CHR ''-'' then ([c], cs) else ([], s))
      in case s1 of
           [] \<Rightarrow> None
         | d # ds \<Rightarrow>
             if \<not> is_digit d then None
             else if d = ch CHR ''0'' then Some (sign @ [d], ds)
             else Some (sign @ d # takeWhile is_digit ds, dropWhile is_digit ds))"

definition match_frac :: "pystr \<Rightarrow> pystr \<times> pystr" where
  "match_frac s =
     (case s of
        p # f # fs \<Rightarrow>
          if p = ch CHR ''.'' \<and> is_digit f
          then (p # f # takeWhile is_digit fs, dropWhile is_digit fs)
          else ([], s)
      | _ \<Rightarrow> ([], s))"

definition match_exp :: "pystr \<Rightarrow> pystr \<times> pystr" where
  "match_exp s =
     (case s of
        [] \<Rightarrow> ([], s)
      | e # es \<Rightarrow>
          if e = ch CHR ''e'' \<or> e = ch CHR ''E'' then
            (let (esign, digits) =
                   (case es of
                      [] \<Rightarrow> ([], es)
                    | x # xs \<Rightarrow>
                        if x = ch CHR ''-'' \<or> x = ch CHR ''+'' then ([x], xs) else ([], es))
             in case digits of
                  [] \<Rightarrow> ([], s)
                | y # ys \<Rightarrow>
                    if is_digit y
                    then (e # esign @ takeWhile is_digit digits, dropWhile is_digit digits)
                    else ([], s))
          else ([], s))"

text \<open>\<open>int(text)\<close> for an optional minus sign and decimal digits.\<close>

definition parse_int :: "pystr \<Rightarrow> int" where
  "parse_int text =
     (case text of
        [] \<Rightarrow> 0
      | c # cs \<Rightarrow> if c = ch CHR ''-'' then - int_of_digits cs else int_of_digits text)"

definition match_number :: "pystr \<Rightarrow> (json \<times> pystr) option" where
  "match_number s =
     (case match_integer s of
        None \<Rightarrow> None
      | Some (integer, s1) \<Rightarrow>
          (let (frac, s2) = match_frac s1;
               (exp, s3) = match_exp s2
           in if frac = [] \<and> exp = [] then Some (JInt (parse_int integer), s3)
              else Some (JFloat (integer @ frac @ exp), s3)))"

definition hex_digit :: "nat \<Rightarrow> nat option" where
  "hex_digit c =
     (if 48 \<le> c \<and> c \<le> 57 then Some (c - 48)
      else if 97 \<le> c \<and> c \<le> 102 then Some (c - 87)
      else if 65 \<le> c \<and> c \<le> 70 then Some (c - 55)
      else None)"

fun decode_uXXXX :: "pystr \<Rightarrow> nat option" where
  "decode_uXXXX (a # b # c # d # rest) =
     (case (hex_digit a, hex_digit b, hex_digit c, hex_digit d) of
        (Some x, Some y, Some z, Some w) \<Rightarrow> Some (((x * 16 + y) * 16 + z) * 16 + w)
      | _ \<Rightarrow> None)"
| "decode_uXXXX _ = None"

definition backslash :: "nat \<Rightarrow> nat option" where
  "backslash e =
     (if e = ch CHR 0x22 then Some 34
      else if e = ch CHR 0x5C then Some 92
      else if e = ch CHR ''/'' then Some 47
      else if e = ch CHR ''b'' then Some 8
      else if e = ch CHR ''f'' then Some 12
      else if e = ch CHR ''n'' then Some 10
      else if e = ch CHR ''r'' then Some 13
      else if e = ch CHR ''t'' then Some 9
      else None)"

text \<open>
  \<open>scanstring begin acc s\<close> reads the characters of a string up to its closing quote;
  \<open>s\<close> is the text behind the opening quote, \<open>begin\<close> the text from the opening quote
  on, \<open>acc\<close> the characters read so far.
\<close>

function scanstring :: "pystr \<Rightarrow> pystr \<Rightarrow> pystr \<Rightarrow> pystr scan" where
  "scanstring begin acc [] = Err (str ''Unterminated string starting at'') begin"
| "scanstring begin acc (c # cs) =
     (if c = ch CHR 0x22 then Ok acc cs
      else if c = ch CHR 0x5C then
        (case cs of
           [] \<Rightarrow> Err (str ''Unterminated string starting at'') begin
         | e # es \<Rightarrow>
             if e = ch CHR ''u'' then
               (case decode_uXXXX es of
                  None \<Rightarrow> Err (str ''Invalid '' @ 92 # str ''uXXXX escape'') cs
                | Some uni \<Rightarrow>
                    if 55296 \<le> uni \<and> uni \<le> 56319 \<and> prefix [92, ch CHR ''u''] (drop 4 es) then
                      (case decode_uXXXX (drop 6 es) of
                         None \<Rightarrow> Err (str ''Invalid '' @ 92 # str ''uXXXX escape'') (drop 5 es)
                       | Some uni2 \<Rightarrow>
                           if 56320 \<le> uni2 \<and> uni2 \<le> 57343 then
                             scanstring begin
                               (acc @ [65536 + ((uni - 55296) * 1024 + (uni2 - 56320))])
                               (drop 10 es)
                           else scanstring begin (acc @ [uni]) (drop 4 es))
                    else scanstring begin (acc @ [uni]) (drop 4 es))
             else
               (case backslash e of
                  None \<Rightarrow> Err (str ''Invalid '' @ 92 # str ''escape'') (c # cs)
                | Some x \<Rightarrow> scanstring begin (acc @ [x]) es))
      else if c < 32 then Err (str ''Invalid control character at'') (c # cs)
      else scanstring begin (acc @ [c]) cs)"
  by pat_completeness auto
termination
  by (relation "measure (\<lambda>(begin, acc, s). length s)") auto

text \<open>\<open>d[key] = value\<close> on a dictionary kept in insertion order.\<close>

fun dict_set :: "pystr \<Rightarrow> json \<Rightarrow> (pystr \<times> json) list \<Rightarrow> (pystr \<times> json) list" where
  "dict_set k v [] = [(k, v)]"
| "dict_set k v ((k', v') # d) = (if k' = k then (k, v) # d else (k', v') # dict_set k v d)"

text \<open>
  The scanner. \<open>scan_once\<close> reads one value at the head of the text;
  \<open>JSONObject\<close> and \<open>JSONArray\<close> read the members behind an opening brace or
  bracket, from the first key's opening quote and the first element on. The first
  argument bounds the number of calls; \<open>json_loads\<close> starts with more than the text
  can use.
\<close>

fun scan_once :: "nat \<Rightarrow> pystr \<Rightarrow> json scan"
  and JSONObject :: "nat \<Rightarrow> (pystr \<times> json) list \<Rightarrow> pystr \<Rightarrow> json scan"
  and JSONArray :: "nat \<Rightarrow> json list \<Rightarrow> pystr \<Rightarrow> json scan" where
  "scan_once 0 s = Exhausted"
| "scan_once (Suc n) [] = Err (str ''Expecting value'') []"
| "scan_once (Suc n) (c # cs) =
     (if c = ch CHR 0x22 then
        (case scanstring (c # cs) [] cs of
           Ok text rest \<Rightarrow> Ok (JString text) rest
         | Err msg at \<Rightarrow> Err msg at
         | Exhausted \<Rightarrow> Exhausted)
      else if c = ch CHR ''{'' then
        (case skip_ws cs of
           [] \<Rightarrow> Err (str ''Expecting property name enclosed in double quotes'') []
         | d # ds \<Rightarrow>
             if d = ch CHR ''}'' then Ok (JObject []) ds
             else if d = ch CHR 0x22 then JSONObject n [] (d # ds)
             else Err (str ''Expecting property name enclosed in double quotes'') (d # ds))
      else if c = ch CHR ''['' then
        (case skip_ws cs of
           [] \<Rightarrow> Err (str ''Expecting value'') []
         | d # ds \<Rightarrow>
             if d = ch CHR '']'' then Ok (JArray []) ds
             else JSONArray n [] (d # ds))
      else if prefix (str ''null'') (c # cs) then Ok JNull (drop 4 (c # cs))
      else if prefix (str ''true'') (c # cs) then Ok (JBool True) (drop 4 (c # cs))
      else if prefix (str ''false'') (c # cs) then Ok (JBool False) (drop 5 (c # cs))
      else
        (case match_number (c # cs) of
           Some (number, rest) \<Rightarrow> Ok number rest
         | None \<Rightarrow>
             if prefix (str ''NaN'') (c # cs) then Ok (JFloat (str ''NaN'')) (drop 3 (c # cs))
             else if prefix (str ''Infinity'') (c # cs) then
               Ok (JFloat (str ''Infinity'')) (drop 8 (c # cs))
             else if prefix (str ''-Infinity'') (c # cs) then
               Ok (JFloat (str ''-Infinity'')) (drop 9 (c # cs))
             else Err (str ''Expecting value'') (c # cs)))"
| "JSONObject 0 pairs s = Exhausted"
| "JSONObject (Suc n) pairs s =
     (case scanstring s [] (tl s) of
        Err msg at \<Rightarrow> Err msg at
      | Exhausted \<Rightarrow> Exhausted
      | Ok key s1 \<Rightarrow>
          (case skip_ws s1 of
             [] \<Rightarrow> Err (str ''Expecting ':' delimiter'') []
           | c # s2 \<Rightarrow>
               if c \<noteq> ch CHR '':'' then Err (str ''Expecting ':' delimiter'') (c # s2)
               else
                 (case scan_once n (skip_ws s2) of
                    Err msg at \<Rightarrow> Err msg at
                  | Exhausted \<Rightarrow> Exhausted
                  | Ok v s3 \<Rightarrow>
                      (case skip_ws s3 of
                         [] \<Rightarrow> Err (str ''Expecting ',' delimiter'') []
                       | d # s4 \<Rightarrow>
                           if d = ch CHR ''}'' then Ok (JObject (dict_set key v pairs)) s4
                           else if d \<noteq> ch CHR '','' then
                             Err (str ''Expecting ',' delimiter'') (d # s4)
                           else
                             (case skip_ws s4 of
                                [] \<Rightarrow>
                                  Err (str ''Expecting property name enclosed in double quotes'') []
                              | q # s5 \<Rightarrow>
                                  if q = ch CHR 0x22
                                  then JSONObject n (dict_set key v pairs) (q # s5)
                                  else Err (str ''Expecting property name enclosed in double quotes'')
                                         (q # s5))))))"
| "JSONArray 0 vals s = Exhausted"
| "JSONArray (Suc n) vals s =
     (case scan_once n s of
        Err msg at \<Rightarrow> Err msg at
      | Exhausted \<Rightarrow> Exhausted
      | Ok v s1 \<Rightarrow>
          (case skip_ws s1 of
             [] \<Rightarrow> Err (str ''Expecting ',' delimiter'') []
           | d # s2 \<Rightarrow>
               if d = ch CHR '']'' then Ok (JArray (vals @ [v])) s2
               else if d \<noteq> ch CHR '','' then Err (str ''Expecting ',' delimiter'') (d # s2)
               else JSONArray n (vals @ [v]) (skip_ws s2)))"

text \<open>The decimal text of a natural number, as \<open>str()\<close> and \<open>%d\<close> print it.\<close>

fun str_nat :: "nat \<Rightarrow> pystr" where
  "str_nat n = (if n < 10 then [48 + n] else str_nat (n div 10) @ [48 + n mod 10])"

declare str_nat.simps [simp del]

text \<open>
  \<open>str(e)\<close> of a \<open>JSONDecodeError(msg, doc, pos)\<close>: the message with the line, the
  column and the index of the position.
\<close>

definition errmsg :: "pystr \<Rightarrow> pystr \<Rightarrow> nat \<Rightarrow> pystr" where
  "errmsg msg doc pos =
     (let passed = take pos doc;
          lineno = length (filter (\<lambda>c. c = 10) passed) + 1;
          colno = length (takeWhile (\<lambda>c. c \<noteq> 10) (rev passed)) + 1
      in msg @ str '': line '' @ str_nat lineno @ str '' column '' @ str_nat colno
           @ str '' (char '' @ str_nat pos @ str '')'')"

definition json_loads :: "pystr \<Rightarrow> exn + json" where
  "json_loads s =
     (if prefix [65279] s then
        Inl (JSONDecodeError (errmsg (str ''Unexpected UTF-8 BOM (decode using utf-8-sig)'') s 0))
      else
        (case scan_once (2 * length s + 2) (skip_ws s) of
           Err msg at \<Rightarrow> Inl (JSONDecodeError (errmsg msg s (length s - length at)))
         | Exhausted \<Rightarrow> Inl (OtherException (str ''maximum recursion depth exceeded''))
         | Ok obj rest \<Rightarrow>
             if skip_ws rest = [] then Inr obj
             else Inl (JSONDecodeError
                        (errmsg (str ''Extra data'') s (length s - length (skip_ws rest))))))"


section \<open>The prompt\<close>

text \<open>
  The dictionary that \<open>get_user_input\<close> returns. \<open>weight\<close> and \<open>height\<close> are floats;
  their type is left open.
\<close>

record 'f user_data =
  name :: pystr
  age :: int
  weight :: 'f
  height :: 'f
  activity_level :: pystr
  dietary_preferences :: pystr
  dietary_requirements :: pystr
  restrictions :: pystr
  goal :: pystr
  region :: pystr
  preferred_cuisines :: pystr
  budget :: pystr
  meal_frequency :: pystr
  duration :: int
  secondary_goals :: pystr

text \<open>\<open>str()\<close> of an \<open>int\<close>.\<close>

definition str_int :: "int \<Rightarrow> pystr" where
  "str_int i = (if i < 0 then ch CHR ''-'' # str_nat (nat (- i)) else str_nat (nat i))"

text \<open>
  The keyword arguments \<open>**user_data\<close>, each value as the formatter prints it. How a
  float prints is the parameter \<open>str_float\<close>: floating-point formatting is not modelled.
\<close>

definition user_data_kwargs :: "('f \<Rightarrow> pystr) \<Rightarrow> 'f user_data \<Rightarrow> (pystr \<times> pystr) list" where
  "user_data_kwargs str_float ud =
     [(str ''name'', name ud),
      (str ''age'', str_int (age ud)),
      (str ''weight'', str_float (weight ud)),
      (str ''height'', str_float (height ud)),
      (str ''activity_level'', activity_level ud),
      (str ''dietary_preferences'', dietary_preferences ud),
      (str ''dietary_requirements'', dietary_requirements ud),
      (str ''restrictions'', restrictions ud),
      (str ''goal'', goal ud),
      (str ''region'', region ud),
      (str ''preferred_cuisines'', preferred_cuisines ud),
      (str ''budget'', budget ud),
      (str ''meal_frequency'', meal_frequency ud),
      (str ''duration'', str_int (duration ud)),
      (str ''secondary_goals'', secondary_goals ud)]"

text \<open>
  The formatter of an f-string template, for fields that are plain names, as all the
  fields of this template are: \<open>{{\<close> and \<open>}}\<close> stand for a brace, \<open>{field}\<close> for the value
  of the field. A field without a value raises \<open>KeyError\<close>, a single brace \<open>ValueError\<close>;
  the exception is returned with its message. \<open>prepend\<close> puts text before the rest of
  the output and passes an exception on.
\<close>

fun prepend :: "pystr \<Rightarrow> exn + pystr \<Rightarrow> exn + pystr" where
  "prepend v (Inr out) = Inr (v @ out)"
| "prepend v (Inl e) = Inl e"

function vformat :: "(pystr \<rightharpoonup> pystr) \<Rightarrow> pystr \<Rightarrow> exn + pystr" where
  "vformat kwargs [] = Inr []"
| "vformat kwargs (c # cs) =
     (if c = ch CHR ''{'' then
        (case cs of
           [] \<Rightarrow>
             Inl (OtherException
                   (str ''Single '' @ 39 # str ''{'' @ 39 # str '' encountered in format string''))
         | d # ds \<Rightarrow>
             if d = ch CHR ''{'' then prepend [c] (vformat kwargs ds)
             else
               (case dropWhile (\<lambda>x. x \<noteq> ch CHR ''}'') cs of
                  [] \<Rightarrow>
                    Inl (OtherException
                          (str ''expected '' @ 39 # str ''}'' @ 39 # str '' before end of string''))
                | close # rest \<Rightarrow>
                    (case kwargs (takeWhile (\<lambda>x. x \<noteq> ch CHR ''}'') cs) of
                       None \<Rightarrow>
                         Inl (OtherException
                               (39 # takeWhile (\<lambda>x. x \<noteq> ch CHR ''}'') cs @ [39]))
                     | Some v \<Rightarrow> prepend v (vformat kwargs rest))))
      else if c = ch CHR ''}'' then
        (case cs of
           [] \<Rightarrow>
             Inl (OtherException
                   (str ''Single '' @ 39 # str ''}'' @ 39 # str '' encountered in format string''))
         | d # ds \<Rightarrow>
             if d = ch CHR ''}'' then prepend [c] (vformat kwargs ds)
             else
               Inl (OtherException
                     (str ''Single '' @ 39 # str ''}'' @ 39 # str '' encountered in format string'')))
      else prepend [c] (vformat kwargs cs))"
  by pat_completeness auto
termination
proof (relation "measure (\<lambda>(kwargs, s). length s)", goal_cases)
  case (3 kwargs c cs d ds close rest)
  have "length (dropWhile (\<lambda>x. x \<noteq> ch CHR ''}'') cs) \<le> length cs"
    by (rule length_dropWhile_le)
  with 3 show ?case by simp
qed simp_all

text \<open>
  A prompt template: its text and the variables bound by \<open>partial\<close>.
  \<open>create_prompt_template\<close> binds \<open>timestamp\<close> to \<open>datetime.now().isoformat()\<close>, which is
  the parameter \<open>now\<close>.
\<close>

record prompt_template =
  template :: pystr
  partial_variables :: "(pystr \<times> pystr) list"

definition create_prompt_template :: "pystr \<Rightarrow> prompt_template" where
  \<open>create_prompt_template now =
     \<lparr>template =
     str ''\<newline>'' @
     str ''    You are NutriAI, an advanced AI nutritionist. Generate a personalized '' @ str ''{duration}'' @ str ''-day diet plan in VALID JSON format.\<newline>'' @
     str ''\<newline>'' @
     str ''    === USER PROFILE ===\<newline>'' @
     str ''    - Name: '' @ str ''{name}'' @ str ''\<newline>'' @
     str ''    - Age: '' @ str ''{age}'' @ str ''\<newline>'' @
     str ''    - Weight: '' @ str ''{weight}'' @ str '' kg\<newline>'' @
     str ''    - Height: '' @ str ''{height}'' @ str '' cm\<newline>'' @
     str ''    - Activity: '' @ str ''{activity_level}'' @ str ''\<newline>'' @
     str ''    - Goals: '' @ str ''{goal}'' @ str '' (primary), '' @ str ''{secondary_goals}'' @ str '' (secondary)\<newline>'' @
     str ''    - Preferences: '' @ str ''{dietary_preferences}'' @ str ''\<newline>'' @
     str ''    - Requirements: '' @ str ''{dietary_requirements}'' @ str ''\<newline>'' @
     str ''    - Restrictions: '' @ str ''{restrictions}'' @ str ''\<newline>'' @
     str ''    - Region: '' @ str ''{region}'' @ str ''\<newline>'' @
     str ''    - Cuisines: '' @ str ''{preferred_cuisines}'' @ str ''\<newline>'' @
     str ''    - Budget: '' @ str ''{budget}'' @ str ''\<newline>'' @
     str ''    - Meal Frequency: '' @ str ''{meal_frequency}'' @ str ''\<newline>'' @
     str ''\<newline>'' @
     str ''    === REGIONAL CONSIDERATIONS ===\<newline>'' @
     str ''    Incorporate authentic and regionally appropriate foods based on the user's region ('' @ str ''{region}'' @ str ''). Focus on locally available ingredients and traditional cooking methods common in that area. Adjust spice levels, cooking techniques, and meal compositions to align with regional dietary patterns.\<newline>'' @
     str ''\<newline>'' @
     str ''    === OUTPUT FORMAT ===\<newline>'' @
     str ''    Return ONLY a JSON object with no other text around it. The JSON must follow this structure:\<newline>'' @
     str ''    '' @ str ''{{'' @ str ''\<newline>'' @
     str ''        "metadata": '' @ str ''{{'' @ str ''\<newline>'' @
     str ''            "generated_at": "'' @ str ''{timestamp}'' @ str ''",\<newline>'' @
     str ''            "plan_duration": '' @ str ''{duration}'' @ str ''\<newline>'' @
     str ''        '' @ str ''}}'' @ str '',\<newline>'' @
     str ''        "user_profile": '' @ str ''{{'' @ str ''\<newline>'' @
     str ''            "bmi": 22.1,\<newline>'' @
     str ''            "bmr": 1650,\<newline>'' @
     str ''            "daily_calories": 2200,\<newline>'' @
     str ''            "macros": '' @ str ''{{'' @ str ''\<newline>'' @
     str ''                "protein": '' @ str ''{{'' @ str ''"percent": 30, "grams": 165'' @ str ''}}'' @ str '',\<newline>'' @
     str ''                "carbs": '' @ str ''{{'' @ str ''"percent": 40, "grams": 220'' @ str ''}}'' @ str '',\<newline>'' @
     str ''                "fats": '' @ str ''{{'' @ str ''"percent": 30, "grams": 73'' @ str ''}}'' @ str ''\<newline>'' @
     str ''            '' @ str ''}}'' @ str '',\<newline>'' @
     str ''            "micro_nutrients": ["iron", "vitamin D"],\<newline>'' @
     str ''            "considerations": []\<newline>'' @
     str ''        '' @ str ''}}'' @ str '',\<newline>'' @
     str ''        "daily_plans": '' @ str ''{{'' @ str ''\<newline>'' @
     str ''            "day_1": '' @ str ''{{'' @ str ''\<newline>'' @
     str ''                "meals": '' @ str ''{{'' @ str ''\<newline>'' @
     str ''                    "breakfast": '' @ str ''{{'' @ str ''\<newline>'' @
     str ''                        "name": "Meal Name",\<newline>'' @
     str ''                        "desc": "Description",\<newline>'' @
     str ''                        "ingredients": ["item1", "item2"],\<newline>'' @
     str ''                        "nutrition": '' @ str ''{{'' @ str ''\<newline>'' @
     str ''                            "calories": 350,\<newline>'' @
     str ''                            "protein": 20,\<newline>'' @
     str ''                            "carbs": 45,\<newline>'' @
     str ''                            "fats": 8,\<newline>'' @
     str ''                            "fiber": 5\<newline>'' @
     str ''                        '' @ str ''}}'' @ str '',\<newline>'' @
     str ''                        "prep": "Preparation steps",\<newline>'' @
     str ''                        "time": "08:00"\<newline>'' @
     str ''                    '' @ str ''}}'' @ str ''\<newline>'' @
     str ''                '' @ str ''}}'' @ str '',\<newline>'' @
     str ''                "snacks": '' @ str ''{{'' @ str ''\<newline>'' @
     str ''                    "morning_snack": '' @ str ''{{'' @ str ''\<newline>'' @
     str ''                        "name": "Snack Name",\<newline>'' @
     str ''                        "nutrition": '' @ str ''{{'' @ str ''\<newline>'' @
     str ''                            "calories": 150,\<newline>'' @
     str ''                            "protein": 5,\<newline>'' @
     str ''                            "carbs": 20,\<newline>'' @
     str ''                            "fats": 5\<newline>'' @
     str ''                        '' @ str ''}}'' @ str ''\<newline>'' @
     str ''                    '' @ str ''}}'' @ str ''\<newline>'' @
     str ''                '' @ str ''}}'' @ str '',\<newline>'' @
     str ''                "hydration": '' @ str ''{{'' @ str ''\<newline>'' @
     str ''                    "water": "2L minimum",\<newline>'' @
     str ''                    "other": ["herbal tea", "electrolyte drink"]\<newline>'' @
     str ''                '' @ str ''}}'' @ str ''\<newline>'' @
     str ''            '' @ str ''}}'' @ str ''\<newline>'' @
     str ''        '' @ str ''}}'' @ str '',\<newline>'' @
     str ''        "shopping_list": '' @ str ''{{'' @ str ''\<newline>'' @
     str ''            "proteins": ["chicken", "tofu"],\<newline>'' @
     str ''            "carbs": ["quinoa", "sweet potatoes"],\<newline>'' @
     str ''            "vegetables": ["spinach", "broccoli"],\<newline>'' @
     str ''            "fruits": ["berries", "bananas"],\<newline>'' @
     str ''            "other": ["olive oil", "nuts"]\<newline>'' @
     str ''        '' @ str ''}}'' @ str '',\<newline>'' @
     str ''        "recommendations": '' @ str ''{{'' @ str ''\<newline>'' @
     str ''            "general": "General advice",\<newline>'' @
     str ''            "supplements": ["vitamin D", "omega-3"],\<newline>'' @
     str ''            "tracking": "Progress tracking tips"\<newline>'' @
     str ''        '' @ str ''}}'' @ str ''\<newline>'' @
     str ''    '' @ str ''}}'' @ str ''\<newline>'' @
     str ''\<newline>'' @
     str ''    IMPORTANT: Return ONLY the JSON - no explanation, no markdown code blocks, no additional text.\<newline>'' @
     str ''    '',
      partial_variables = [(str ''timestamp'', now)]\<rparr>\<close>

text \<open>
  \<open>format_prompt(**kwargs)\<close>: the text of the one message of the prompt. The keyword
  arguments take precedence over the partial variables.
\<close>

definition format_prompt :: "prompt_template \<Rightarrow> (pystr \<times> pystr) list \<Rightarrow> exn + pystr" where
  "format_prompt pt kwargs = vformat (map_of (kwargs @ partial_variables pt)) (template pt)"

text \<open>\<open>create_prompt_template().format_prompt(**user_data)\<close>, as \<open>main\<close> calls it.\<close>

definition build_prompt :: "('f \<Rightarrow> pystr) \<Rightarrow> pystr \<Rightarrow> 'f user_data \<Rightarrow> exn + pystr" where
  "build_prompt str_float now ud =
     format_prompt (create_prompt_template now) (user_data_kwargs str_float ud)"

text \<open>
  The three stretches of the formatted prompt around the two places of the duration:
  the template's text with the other fields filled in.
\<close>

definition prompt_before_duration :: pystr where
  \<open>prompt_before_duration =
     str ''\<newline>'' @
     str ''    You are NutriAI, an advanced AI nutritionist. Generate a personalized ''\<close>

definition prompt_between_durations :: "('f \<Rightarrow> pystr) \<Rightarrow> pystr \<Rightarrow> 'f user_data \<Rightarrow> pystr" where
  \<open>prompt_between_durations str_float now ud =
     str ''-day diet plan in VALID JSON format.\<newline>'' @
     str ''\<newline>'' @
     str ''    === USER PROFILE ===\<newline>'' @
     str ''    - Name: '' @ name ud @ str ''\<newline>'' @
     str ''    - Age: '' @ str_int (age ud) @ str ''\<newline>'' @
     str ''    - Weight: '' @ str_float (weight ud) @ str '' kg\<newline>'' @
     str ''    - Height: '' @ str_float (height ud) @ str '' cm\<newline>'' @
     str ''    - Activity: '' @ activity_level ud @ str ''\<newline>'' @
     str ''    - Goals: '' @ goal ud @ str '' (primary), '' @ secondary_goals ud @ str '' (secondary)\<newline>'' @
     str ''    - Preferences: '' @ dietary_preferences ud @ str ''\<newline>'' @
     str ''    - Requirements: '' @ dietary_requirements ud @ str ''\<newline>'' @
     str ''    - Restrictions: '' @ restrictions ud @ str ''\<newline>'' @
     str ''    - Region: '' @ region ud @ str ''\<newline>'' @
     str ''    - Cuisines: '' @ preferred_cuisines ud @ str ''\<newline>'' @
     str ''    - Budget: '' @ budget ud @ str ''\<newline>'' @
     str ''    - Meal Frequency: '' @ meal_frequency ud @ str ''\<newline>'' @
     str ''\<newline>'' @
     str ''    === REGIONAL CONSIDERATIONS ===\<newline>'' @
     str ''    Incorporate authentic and regionally appropriate foods based on the user's region ('' @ region ud @ str ''). Focus on locally available ingredients and traditional cooking methods common in that area. Adjust spice levels, cooking techniques, and meal compositions to align with regional dietary patterns.\<newline>'' @
     str ''\<newline>'' @
     str ''    === OUTPUT FORMAT ===\<newline>'' @
     str ''    Return ONLY a JSON object with no other text around it. The JSON must follow this structure:\<newline>'' @
     str ''    '' @ str ''{'' @ str ''\<newline>'' @
     str ''        "metadata": '' @ str ''{'' @ str ''\<newline>'' @
     str ''            "generated_at": "'' @ now @ str ''",\<newline>'' @
     str ''            "plan_duration": ''\<close>

definition prompt_after_duration :: pystr where
  \<open>prompt_after_duration =
     str ''\<newline>'' @
     str ''        '' @ str ''}'' @ str '',\<newline>'' @
     str ''        "user_profile": '' @ str ''{'' @ str ''\<newline>'' @
     str ''            "bmi": 22.1,\<newline>'' @
     str ''            "bmr": 1650,\<newline>'' @
     str ''            "daily_calories": 2200,\<newline>'' @
     str ''            "macros": '' @ str ''{'' @ str ''\<newline>'' @
     str ''                "protein": '' @ str ''{'' @ str ''"percent": 30, "grams": 165'' @ str ''}'' @ str '',\<newline>'' @
     str ''                "carbs": '' @ str ''{'' @ str ''"percent": 40, "grams": 220'' @ str ''}'' @ str '',\<newline>'' @
     str ''                "fats": '' @ str ''{'' @ str ''"percent": 30, "grams": 73'' @ str ''}'' @ str ''\<newline>'' @
     str ''            '' @ str ''}'' @ str '',\<newline>'' @
     str ''            "micro_nutrients": ["iron", "vitamin D"],\<newline>'' @
     str ''            "considerations": []\<newline>'' @
     str ''        '' @ str ''}'' @ str '',\<newline>'' @
     str ''        "daily_plans": '' @ str ''{'' @ str ''\<newline>'' @
     str ''            "day_1": '' @ str ''{'' @ str ''\<newline>'' @
     str ''                "meals": '' @ str ''{'' @ str ''\<newline>'' @
     str ''                    "breakfast": '' @ str ''{'' @ str ''\<newline>'' @
     str ''                        "name": "Meal Name",\<newline>'' @
     str ''                        "desc": "Description",\<newline>'' @
     str ''                        "ingredients": ["item1", "item2"],\<newline>'' @
     str ''                        "nutrition": '' @ str ''{'' @ str ''\<newline>'' @
     str ''                            "calories": 350,\<newline>'' @
     str ''                            "protein": 20,\<newline>'' @
     str ''                            "carbs": 45,\<newline>'' @
     str ''                            "fats": 8,\<newline>'' @
     str ''                            "fiber": 5\<newline>'' @
     str ''                        '' @ str ''}'' @ str '',\<newline>'' @
     str ''                        "prep": "Preparation steps",\<newline>'' @
     str ''                        "time": "08:00"\<newline>'' @
     str ''                    '' @ str ''}'' @ str ''\<newline>'' @
     str ''                '' @ str ''}'' @ str '',\<newline>'' @
     str ''                "snacks": '' @ str ''{'' @ str ''\<newline>'' @
     str ''                    "morning_snack": '' @ str ''{'' @ str ''\<newline>'' @
     str ''                        "name": "Snack Name",\<newline>'' @
     str ''                        "nutrition": '' @ str ''{'' @ str ''\<newline>'' @
     str ''                            "calories": 150,\<newline>'' @
     str ''                            "protein": 5,\<newline>'' @
     str ''                            "carbs": 20,\<newline>'' @
     str ''                            "fats": 5\<newline>'' @
     str ''                        '' @ str ''}'' @ str ''\<newline>'' @
     str ''                    '' @ str ''}'' @ str ''\<newline>'' @
     str ''                '' @ str ''}'' @ str '',\<newline>'' @
     str ''                "hydration": '' @ str ''{'' @ str ''\<newline>'' @
     str ''                    "water": "2L minimum",\<newline>'' @
     str ''                    "other": ["herbal tea", "electrolyte drink"]\<newline>'' @
     str ''                '' @ str ''}'' @ str ''\<newline>'' @
     str ''            '' @ str ''}'' @ str ''\<newline>'' @
     str ''        '' @ str ''}'' @ str '',\<newline>'' @
     str ''        "shopping_list": '' @ str ''{'' @ str ''\<newline>'' @
     str ''            "proteins": ["chicken", "tofu"],\<newline>'' @
     str ''            "carbs": ["quinoa", "sweet potatoes"],\<newline>'' @
     str ''            "vegetables": ["spinach", "broccoli"],\<newline>'' @
     str ''            "fruits": ["berries", "bananas"],\<newline>'' @
     str ''            "other": ["olive oil", "nuts"]\<newline>'' @
     str ''        '' @ str ''}'' @ str '',\<newline>'' @
     str ''        "recommendations": '' @ str ''{'' @ str ''\<newline>'' @
     str ''            "general": "General advice",\<newline>'' @
     str ''            "supplements": ["vitamin D", "omega-3"],\<newline>'' @
     str ''            "tracking": "Progress tracking tips"\<newline>'' @
     str ''        '' @ str ''}'' @ str ''\<newline>'' @
     str ''    '' @ str ''}'' @ str ''\<newline>'' @
     str ''\<newline>'' @
     str ''    IMPORTANT: Return ONLY the JSON - no explanation, no markdown code blocks, no additional text.\<newline>'' @
     str ''    ''\<close>


text \<open>A profile as the form submits it, with a plan of 14 days.\<close>

definition example_user_data :: "nat user_data" where
  "example_user_data =
     \<lparr>name = str ''Alex Johnson'', age = 30, weight = 70, height = 170,
      activity_level = str ''Sedentary (little to no exercise)'',
      dietary_preferences = str ''None'', dietary_requirements = str ''None'',
      restrictions = str ''None'', goal = str ''Weight Loss'', region = str ''South Asia'',
      preferred_cuisines = str ''Any'', budget = str ''Low'', meal_frequency = str ''3 meals'',
      duration = 14, secondary_goals = str ''None''\<rparr>"


section \<open>Shapes of text named by the specification\<close>

text \<open>
  The text that \<open>extract_and_parse_json\<close> hands to the parser: the value of
  \<open>json_str\<close> when \<open>json.loads\<close> is called.
\<close>

definition repaired_json_str :: "pystr \<Rightarrow> pystr" where
  "repaired_json_str raw_output =
     remove_trailing_commas (strip (remove_code_fences
       (case search_json_pattern raw_output of Some group1 \<Rightarrow> group1 | None \<Rightarrow> raw_output)))"

text \<open>A text has a code fence when three backticks occur in it somewhere.\<close>

fun has_code_fence :: "pystr \<Rightarrow> bool" where
  "has_code_fence [] = False"
| "has_code_fence (c # cs) = (prefix (str ''```'') (c # cs) \<or> has_code_fence cs)"

text \<open>
  A text has a trailing comma when some comma in it, inside a string value or not, is
  followed by optional whitespace and then \<open>}\<close> or \<open>]\<close>.
\<close>

definition closer_follows :: "pystr \<Rightarrow> bool" where
  "closer_follows cs =
     (case dropWhile is_space cs of
        [] \<Rightarrow> False
      | d # rest \<Rightarrow> d = ch CHR ''}'' \<or> d = ch CHR '']'')"

fun has_trailing_comma :: "pystr \<Rightarrow> bool" where
  "has_trailing_comma [] = False"
| "has_trailing_comma (c # cs) =
     (c = ch CHR '','' \<and> closer_follows cs \<or> has_trailing_comma cs)"


section \<open>Properties of the extraction steps\<close>

lemma extract_and_parse_json_eq:
  "extract_and_parse_json loads raw_output ui =
     (case loads (repaired_json_str raw_output) of
        Inr plan \<Rightarrow> (plan, ui)
      | Inl (JSONDecodeError e) \<Rightarrow>
          (JNull, ui @ [StError (128308 # str '' JSON Parsing Error: '' @ e),
                        StTextArea (str ''Problematic JSON Output'') raw_output 200])
      | Inl (OtherException e) \<Rightarrow>
          (JNull, ui @ [StError (128308 # str '' Error processing output: '' @ e)]))"
  by (simp add: extract_and_parse_json_def repaired_json_str_def Let_def)

lemma has_code_fence_prefix: "prefix (str ''```'') s \<Longrightarrow> has_code_fence s"
  by (cases s) auto

lemma has_code_fence_dropWhile: "has_code_fence (dropWhile P s) \<Longrightarrow> has_code_fence s"
  by (induction s) (auto split: if_splits)

lemma remove_code_fences_id: "\<not> has_code_fence s \<Longrightarrow> remove_code_fences s = s"
proof (induction s)
  case Nil
  show ?case by simp
next
  case (Cons c cs)
  from Cons.prems have no_prefix: "\<not> prefix (str ''```'') (c # cs)" and tail: "\<not> has_code_fence cs"
    by auto
  have no_prefix': "\<not> prefix (str ''```'') (dropWhile is_space (c # cs))"
    using Cons.prems has_code_fence_prefix has_code_fence_dropWhile by blast
  have "remove_code_fences (c # cs) = c # remove_code_fences cs"
    by (subst remove_code_fences.simps) (simp only: no_prefix no_prefix' if_False)
  with Cons.IH [OF tail] show ?case
    by simp
qed

lemma remove_trailing_commas_id: "\<not> has_trailing_comma s \<Longrightarrow> remove_trailing_commas s = s"
proof (induction s)
  case Nil
  show ?case by simp
next
  case (Cons c cs)
  from Cons.prems have tail: "\<not> has_trailing_comma cs"
    and here: "c = ch CHR '','' \<Longrightarrow> \<not> closer_follows cs"
    by auto
  note IH = Cons.IH [OF tail]
  show ?case
  proof (cases "c = ch CHR '',''")
    case True
    show ?thesis
    proof (cases "dropWhile is_space cs")
      case Nil
      with True IH show ?thesis
        by (simp del: dropWhile_eq_Nil_conv)
    next
      case (Cons d rest)
      with here [OF True] have "\<not> (d = ch CHR ''}'' \<or> d = ch CHR '']'')"
        by (simp add: closer_follows_def)
      with True Cons IH show ?thesis
        by simp
    qed
  next
    case False
    then show ?thesis
      using IH by simp
  qed
qed

lemma strip_id:
  assumes "s \<noteq> []" and "\<not> is_space (hd s)" and "\<not> is_space (last s)"
  shows "strip s = s"
proof -
  from assms(1,2) have 1: "dropWhile is_space s = s"
    by (cases s) auto
  from assms(1,3) have 2: "dropWhile is_space (rev s) = rev s"
    by (cases s rule: rev_cases) auto
  show ?thesis
    by (simp add: strip_def 1 2)
qed

lemma dropWhile_all: "\<forall>x\<in>set xs. P x \<Longrightarrow> dropWhile P xs = []"
  by simp

lemma search_json_pattern_wrapped:
  assumes "ch CHR ''{'' \<notin> set lead" and "ch CHR ''}'' \<notin> set trail"
  shows "search_json_pattern (lead @ ch CHR ''{'' # body @ ch CHR ''}'' # trail)
           = Some (ch CHR ''{'' # body @ [ch CHR ''}''])"
proof -
  from assms(1) have "\<forall>x\<in>set lead. x \<noteq> ch CHR ''{''"
    by auto
  then have 1: "dropWhile (\<lambda>c. c \<noteq> ch CHR ''{'') (lead @ ch CHR ''{'' # body @ ch CHR ''}'' # trail)
             = ch CHR ''{'' # body @ ch CHR ''}'' # trail"
    by (simp add: dropWhile_append3)
  from assms(2) have "\<forall>x\<in>set (rev trail). x \<noteq> ch CHR ''}''"
    by auto
  then have 2: "dropWhile (\<lambda>c. c \<noteq> ch CHR ''}'') (rev (ch CHR ''{'' # body @ ch CHR ''}'' # trail))
             = ch CHR ''}'' # rev body @ [ch CHR ''{'']"
    by (simp add: dropWhile_append3)
  show ?thesis
    unfolding search_json_pattern_def Let_def 1 2 by simp
qed


lemma not_space_braces [simp]:
  "\<not> is_space 123" "\<not> is_space 125" "\<not> is_space 93" "\<not> is_space 44"
  by (simp_all add: is_space_def)

lemma repaired_json_str_wrapped:
  assumes "ch CHR ''{'' \<notin> set lead" and "ch CHR ''}'' \<notin> set trail"
    and "obj = ch CHR ''{'' # body @ [ch CHR ''}'']"
    and "\<not> has_code_fence obj"
  shows "repaired_json_str (lead @ obj @ trail) = remove_trailing_commas obj"
proof -
  have "strip obj = obj"
    unfolding assms(3) by (rule strip_id) simp_all
  moreover have "search_json_pattern (lead @ obj @ trail) = Some obj"
    using search_json_pattern_wrapped [OF assms(1,2), of body] by (simp add: assms(3))
  ultimately show ?thesis
    unfolding repaired_json_str_def
    by (simp only: option.case remove_code_fences_id [OF assms(4)])
qed





section \<open>The parser model returns\<close>























section \<open>Texts without an opening brace\<close>








section \<open>Formatting the prompt\<close>

text \<open>
  The formatter, piece by piece: text without braces is copied, an escaped brace gives
  one brace, a field gives its value. With these the template is formatted for any
  profile.
\<close>

lemma vformat_plain:
  "c \<noteq> 123 \<Longrightarrow> c \<noteq> 125 \<Longrightarrow> vformat kw (c # cs) = prepend [c] (vformat kw cs)"
  by simp

lemma vformat_literal:
  "123 \<notin> set t \<Longrightarrow> 125 \<notin> set t \<Longrightarrow> vformat kw (t @ rest) = prepend t (vformat kw rest)"
proof (induction t)
  case Nil
  show ?case by (cases "vformat kw rest") simp_all
next
  case (Cons c t)
  then show ?case
    by (cases "vformat kw rest") simp_all
qed

lemma vformat_literal_end:
  "123 \<notin> set (c # t) \<Longrightarrow> 125 \<notin> set (c # t) \<Longrightarrow> vformat kw (c # t) = Inr (c # t)"
  using vformat_literal [of "c # t" kw "[]"] by simp

lemma vformat_open_piece: "vformat kw ([123, 123] @ rest) = prepend [123] (vformat kw rest)"
  by simp

lemma vformat_close_piece: "vformat kw ([125, 125] @ rest) = prepend [125] (vformat kw rest)"
  by simp

lemma vformat_field_piece:
  assumes "d \<noteq> 123" and "125 \<notin> set (butlast (d # ds))" and "last (d # ds) = 125"
  shows "vformat kw ((123 # d # ds) @ rest) =
           (case kw (butlast (d # ds)) of
              None \<Rightarrow> Inl (OtherException (39 # butlast (d # ds) @ [39]))
            | Some v \<Rightarrow> prepend v (vformat kw rest))"
proof -
  have split: "d # ds = butlast (d # ds) @ [125]"
    using assms(3) append_butlast_last_id [of "d # ds"] by simp
  have "\<forall>x\<in>set (butlast (d # ds)). x \<noteq> 125"
    using assms(2) by auto
  then have dw: "dropWhile (\<lambda>x. x \<noteq> 125) ((butlast (d # ds) @ [125]) @ rest) = 125 # rest"
    and tw: "takeWhile (\<lambda>x. x \<noteq> 125) ((butlast (d # ds) @ [125]) @ rest) = butlast (d # ds)"
    by (simp_all add: dropWhile_append3 takeWhile_append2)
  have "vformat kw (123 # (d # ds) @ rest) =
          (case dropWhile (\<lambda>x. x \<noteq> 125) ((d # ds) @ rest) of
             [] \<Rightarrow> Inl (OtherException
                         (str ''expected '' @ 39 # str ''}'' @ 39 # str '' before end of string''))
           | close # rest' \<Rightarrow>
               (case kw (takeWhile (\<lambda>x. x \<noteq> 125) ((d # ds) @ rest)) of
                  None \<Rightarrow> Inl (OtherException
                               (39 # takeWhile (\<lambda>x. x \<noteq> 125) ((d # ds) @ rest) @ [39]))
                | Some v \<Rightarrow> prepend v (vformat kw rest')))"
    using assms(1) by (simp cong: list.case_cong option.case_cong)
  also have "\<dots> = (case kw (butlast (d # ds)) of
              None \<Rightarrow> Inl (OtherException (39 # butlast (d # ds) @ [39]))
            | Some v \<Rightarrow> prepend v (vformat kw rest))"
    by (subst (1 2 3) split) (simp only: dw tw list.case)
  finally show ?thesis by simp
qed

lemmas vformat_eval =
  vformat_literal vformat_literal_end vformat_open_piece vformat_close_piece vformat_field_piece

lemma build_prompt_rendered:
  "build_prompt str_float now ud =
     Inr (prompt_before_duration @ str_int (duration ud) @
          prompt_between_durations str_float now ud @ str_int (duration ud) @
          prompt_after_duration)"
  unfolding build_prompt_def format_prompt_def create_prompt_template_def user_data_kwargs_def
    prompt_before_duration_def prompt_between_durations_def prompt_after_duration_def
  by (simp del: vformat.simps append.simps add: vformat_eval)

lemma str_int_14: "str_int 14 = str ''14''"
  by (simp add: str_int_def str_nat.simps)

lemma prompt_before_duration_label:
  "suffix (str ''Generate a personalized '') prompt_before_duration"
  unfolding prompt_before_duration_def
  by (intro suffix_appendI) (simp add: suffix_to_prefix)

lemma prompt_between_durations_labels:
  \<open>prefix (str ''-day diet plan'') (prompt_between_durations str_float now ud)\<close>
  \<open>suffix (str ''"plan_duration": '') (prompt_between_durations str_float now ud)\<close>
  unfolding prompt_between_durations_def
  by (rule prefix_prefix, simp, intro suffix_appendI, simp add: suffix_to_prefix)

lemma prompt_between_durations_update:
  "prompt_between_durations str_float now (ud\<lparr>duration := d\<rparr>)
     = prompt_between_durations str_float now ud"
  unfolding prompt_between_durations_def
  by (simp del: append.simps)

section \<open>Evaluating the parser on a given text\<close>

lemmas scan_once_numeral [simp] =
  scan_once.simps(2,3) [of "pred_numeral k", folded numeral_eq_Suc] for k

lemmas JSONObject_numeral [simp] =
  JSONObject.simps(2) [of "pred_numeral k", folded numeral_eq_Suc] for k

lemmas JSONArray_numeral [simp] =
  JSONArray.simps(2) [of "pred_numeral k", folded numeral_eq_Suc] for k

lemmas json_eval =
  json_loads_def is_json_ws_def match_number_def match_integer_def match_frac_def
  match_exp_def parse_int_def is_digit_def int_of_digits_def
  backslash_def hex_digit_def errmsg_def str_nat.simps

lemmas extract_eval =
  extract_and_parse_json_def search_json_pattern_def strip_def is_space_def


section \<open>The extraction claims\<close>




text \<open>
  C2, as stated, fails: when the prose behind the fence has braces of its own, the
  candidate runs on into the prose, parsing fails and \<open>None\<close> is returned, while the
  unwrapped object text parses.
\<close>

theorem extract_fenced_prose_braces_counterexample:
  \<open>json_loads (str ''{"a":1}'') = Inr (JObject [(str ''a'', JInt 1)]) \<and>
   extract_and_parse_json json_loads
     (str ''Plan:\<newline>```json\<newline>{"a":1}\<newline>```\<newline>Keys are in {braces}.'') [] =
   (JNull,
    [StError (128308 # str '' JSON Parsing Error: Extra data: line 2 column 1 (char 8)''),
     StTextArea (str ''Problematic JSON Output'')
       (str ''Plan:\<newline>```json\<newline>{"a":1}\<newline>```\<newline>Keys are in {braces}.'') 200])\<close>
  by (simp add: json_eval extract_eval)

text \<open>
  C2, amended: for every object text, beginning with \<open>{\<close> and ending with \<open>}\<close>, with no
  code fence and no comma followed by optional whitespace and a closer in it, wrapped in
  a fence with or without the \<open>json\<close> tag, behind prose that has no \<open>{\<close> and before prose
  that has no \<open>}\<close>, and for every parser, extraction returns what the parser returns for
  the unwrapped text.
\<close>

theorem extract_fenced_object:
  assumes "ch CHR ''{'' \<notin> set lead" and "ch CHR ''}'' \<notin> set trail"
    and "tag = [] \<or> tag = str ''json''"
    and "obj = ch CHR ''{'' # body @ [ch CHR ''}'']"
    and "\<not> has_code_fence obj" and "\<not> has_trailing_comma obj"
    and "loads obj = Inr plan"
  shows "extract_and_parse_json loads
           (lead @ str ''```'' @ tag @ [10] @ obj @ [10] @ str ''```'' @ trail) ui = (plan, ui)"
proof -
  from assms(1,3) have 1: "ch CHR ''{'' \<notin> set (lead @ str ''```'' @ tag @ [10])"
    by auto
  from assms(2) have 2: "ch CHR ''}'' \<notin> set ([10] @ str ''```'' @ trail)"
    by auto
  have "repaired_json_str ((lead @ str ''```'' @ tag @ [10]) @ obj @ ([10] @ str ''```'' @ trail))
          = remove_trailing_commas obj"
    by (rule repaired_json_str_wrapped [OF 1 2 assms(4,5)])
  then have "repaired_json_str (lead @ str ''```'' @ tag @ [10] @ obj @ [10] @ str ''```'' @ trail)
               = obj"
    by (simp add: remove_trailing_commas_id [OF assms(6)])
  with assms(7) show ?thesis
    by (simp add: extract_and_parse_json_eq)
qed

theorem extract_fenced_object_witness:
  \<open>ch CHR ''{'' \<notin> set (str ''Here is your plan:\<newline>'') \<and>
   ch CHR ''}'' \<notin> set (str ''\<newline>Enjoy!'') \<and>
   \<not> has_code_fence (str ''{"a":1}'') \<and> \<not> has_trailing_comma (str ''{"a":1}'') \<and>
   json_loads (str ''{"a":1}'') = Inr (JObject [(str ''a'', JInt 1)]) \<and>
   extract_and_parse_json json_loads
     (str ''Here is your plan:\<newline>'' @ str ''```'' @ str ''json'' @ [10] @ str ''{"a":1}'' @ [10]
        @ str ''```'' @ str ''\<newline>Enjoy!'') []
     = (JObject [(str ''a'', JInt 1)], [])\<close>
proof -
  have 1: \<open>ch CHR ''{'' \<notin> set (str ''Here is your plan:\<newline>'')\<close>
    by simp
  have 2: \<open>ch CHR ''}'' \<notin> set (str ''\<newline>Enjoy!'')\<close>
    by simp
  have 3: \<open>str ''json'' = [] \<or> str ''json'' = str ''json''\<close>
    by simp
  have 4: \<open>str ''{"a":1}'' = ch CHR ''{'' # str ''"a":1'' @ [ch CHR ''}'']\<close>
    by simp
  have 5: \<open>\<not> has_code_fence (str ''{"a":1}'')\<close>
    by simp
  have 6: \<open>\<not> has_trailing_comma (str ''{"a":1}'')\<close>
    by (simp add: closer_follows_def is_space_def)
  have 7: \<open>json_loads (str ''{"a":1}'') = Inr (JObject [(str ''a'', JInt 1)])\<close>
    by (simp add: json_eval)
  from extract_fenced_object [of _ _ _ _ _ json_loads, OF 1 2 3 4 5 6 7] 1 2 5 6 7 show ?thesis
    by blast
qed




text \<open>
  C4: on the prose line \<open>Here is your plan:\<close>, the fence tagged \<open>json\<close> around
  \<open>{"a":1,"b":[1,2,],}\<close> and the line \<open>Enjoy!\<close>, extraction returns the object
  \<open>{"a":1,"b":[1,2]}\<close> and displays nothing.
\<close>

theorem extract_scenario_plan:
  \<open>extract_and_parse_json json_loads
     (str ''Here is your plan:\<newline>```json\<newline>{"a":1,"b":[1,2,],}\<newline>```\<newline>Enjoy!'') ui
     = (JObject [(str ''a'', JInt 1), (str ''b'', JArray [JInt 1, JInt 2])], ui)\<close>
  by (simp add: json_eval extract_eval)





text \<open>
  C8: for every profile whose plan duration is 14, the prompt is built, and \<open>14\<close>
  stands in it at the two places of the duration: behind \<open>Generate a personalized\<close> and
  before \<open>-day diet plan\<close>, and behind \<open>"plan_duration":\<close> in the metadata. These are
  the places of the duration and of no other field: with the same text before, between
  and after, they hold the duration whatever it is, and age, weight and height are
  printed inside the text between.
\<close>

theorem prompt_shows_duration:
  assumes "duration ud = 14"
  shows \<open>\<exists>before between after.
           build_prompt str_float now ud
             = Inr (before @ str ''14'' @ between @ str ''14'' @ after) \<and>
           suffix (str ''Generate a personalized '') before \<and>
           prefix (str ''-day diet plan'') between \<and>
           suffix (str ''"plan_duration": '') between \<and>
           (\<forall>d. build_prompt str_float now (ud\<lparr>duration := d\<rparr>)
                  = Inr (before @ str_int d @ between @ str_int d @ after))\<close>
proof (intro exI conjI allI)
  show "build_prompt str_float now ud
          = Inr (prompt_before_duration @ str ''14'' @ prompt_between_durations str_float now ud @
                 str ''14'' @ prompt_after_duration)"
    using build_prompt_rendered [of str_float now ud] assms str_int_14 by simp
  show "suffix (str ''Generate a personalized '') prompt_before_duration"
    by (rule prompt_before_duration_label)
  show \<open>prefix (str ''-day diet plan'') (prompt_between_durations str_float now ud)\<close>
    by (rule prompt_between_durations_labels)
  show \<open>suffix (str ''"plan_duration": '') (prompt_between_durations str_float now ud)\<close>
    by (rule prompt_between_durations_labels)
  show "build_prompt str_float now (ud\<lparr>duration := d\<rparr>)
          = Inr (prompt_before_duration @ str_int d @ prompt_between_durations str_float now ud @
                 str_int d @ prompt_after_duration)" for d
    using build_prompt_rendered [of str_float now "ud\<lparr>duration := d\<rparr>"]
    by (simp add: prompt_between_durations_update)
qed

theorem prompt_shows_duration_witness:
  \<open>duration example_user_data = 14 \<and>
   (\<exists>before between after.
      build_prompt (\<lambda>n. str_nat n @ str ''.0'') (str ''2024-05-01T12:00:00'') example_user_data
        = Inr (before @ str ''14'' @ between @ str ''14'' @ after) \<and>
      suffix (str ''Generate a personalized '') before \<and>
      prefix (str ''-day diet plan'') between \<and>
      suffix (str ''"plan_duration": '') between \<and>
      (\<forall>d. build_prompt (\<lambda>n. str_nat n @ str ''.0'') (str ''2024-05-01T12:00:00'')
               (example_user_data\<lparr>duration := d\<rparr>)
             = Inr (before @ str_int d @ between @ str_int d @ after)))\<close>
proof -
  have 1: "duration example_user_data = 14"
    by (simp add: example_user_data_def)
  from prompt_shows_duration [OF 1] 1 show ?thesis
    by blast
qed


text \<open>
  C10: a successful result need not be a JSON object. The inputs \<open>42\<close> and \<open>[1,2]\<close>
  hold no \<open>{\<close>, so each is parsed whole, and extraction returns the number and the
  array as successes, with nothing displayed.
\<close>

theorem extract_non_object_success:
  \<open>ch CHR ''{'' \<notin> set (str ''42'') \<and>
   extract_and_parse_json json_loads (str ''42'') ui = (JInt 42, ui) \<and>
   ch CHR ''{'' \<notin> set (str ''[1,2]'') \<and>
   extract_and_parse_json json_loads (str ''[1,2]'') ui = (JArray [JInt 1, JInt 2], ui)\<close>
  by (simp add: json_eval extract_eval)

end
